theory Spec2Isabelle
  imports Main "HOL-Library.Multiset"
begin

section \<open>The catalog notebook: opening a dataset from a search result\<close>

text \<open>
  The repository is a notebook, \<open>notebooks/exn_intake.ipynb\<close>. The one function it
  defines is \<open>cat_to_ds\<close>:

  \<^verbatim>\<open>def cat_to_ds(cat):\<close>
  \<^verbatim>\<open>    zarr_path = cat.df['zarr_path'][0] # read the first ensemble member\<close>
  \<^verbatim>\<open>    fsmap = fsspec.get_mapper(zarr_path)\<close>
  \<^verbatim>\<open>    return xr.open_zarr(fsmap, consolidated=True, use_cftime=True)\<close>

  It is applied to the result of \<open>col.search(...)\<close>, a catalog whose \<open>df\<close> is a table
  with one row per matching record. Everything else in the notebook is a call into the
  array library and has no code of its own; the chunk-wise reduction those calls rely on
  is modelled from the specification in the second part.
\<close>

subsection \<open>Errors\<close>

text \<open>
  \<open>KeyError\<close> is what the two subscripts raise on a missing column or a missing index
  label. \<open>ExternalError\<close> stands for whatever \<open>fsspec.get_mapper\<close> or \<open>xr.open_zarr\<close>
  raises; \<open>cat_to_ds\<close> catches nothing, so it propagates.
\<close>

datatype error = KeyError | ExternalError

subsection \<open>The table of a catalog\<close>

text \<open>
  A data frame is stored by column: the index labels, and for each column name the
  column's values, one per row and in row order. A series is one column read by index
  label; labels are unique, so it is a finite map from the label to the value. (A table
  whose index repeats a label is not modelled: there the subscript yields a sub-series
  instead of a value. The tables read below carry the default index.)
\<close>

record dataframe =
  index :: "int list"
  columns :: "(string \<times> string list) list"

type_synonym series = "int \<rightharpoonup> string"

record esm_datastore =
  df :: dataframe

text \<open>The default index of a table with \<open>n\<close> rows: the labels \<open>0, ..., n - 1\<close>.\<close>

definition range_index :: "nat \<Rightarrow> int list" where
  "range_index n = map int [0..<n]"

text \<open>\<open>frame[name]\<close>: the column as a series, \<open>KeyError\<close> when there is no such column.\<close>

definition getitem_column :: "dataframe \<Rightarrow> string \<Rightarrow> error + series" where
  "getitem_column frame name =
     (case map_of (columns frame) name of
        None \<Rightarrow> Inl KeyError
      | Some vs \<Rightarrow> Inr (map_of (zip (index frame) vs)))"

text \<open>
  \<open>s[k]\<close> on a series with an integer index: the value at the label \<open>k\<close> (by label, not
  by position), \<open>KeyError\<close> when no row has that label.
\<close>

definition getitem_label :: "series \<Rightarrow> int \<Rightarrow> error + string" where
  "getitem_label s k = (case s k of None \<Rightarrow> Inl KeyError | Some v \<Rightarrow> Inr v)"

subsection \<open>\<open>cat_to_ds\<close>\<close>

text \<open>
  The two library calls are parameters. \<open>get_mapper\<close> turns a path into a store mapping
  or raises. \<open>open_zarr\<close> takes the mapping and the two keyword arguments
  \<open>consolidated\<close> and \<open>use_cftime\<close>, reads from the object store and returns the dataset or
  raises; the object store it reads (and whatever trace reading leaves) is the state
  \<open>w\<close>, threaded through. An error before \<open>open_zarr\<close> leaves the state as it was.
\<close>

definition cat_to_ds ::
  "(string \<Rightarrow> error + 'm) \<Rightarrow> ('m \<Rightarrow> bool \<Rightarrow> bool \<Rightarrow> 'w \<Rightarrow> (error + 'ds) \<times> 'w) \<Rightarrow>
   esm_datastore \<Rightarrow> 'w \<Rightarrow> (error + 'ds) \<times> 'w" where
  "cat_to_ds get_mapper open_zarr cat w =
     (case getitem_column (df cat) ''zarr_path'' of
        Inl e \<Rightarrow> (Inl e, w)
      | Inr col \<Rightarrow>
          (case getitem_label col 0 of
             Inl e \<Rightarrow> (Inl e, w)
           | Inr zarr_path \<Rightarrow>
               (case get_mapper zarr_path of
                  Inl e \<Rightarrow> (Inl e, w)
                | Inr fsmap \<Rightarrow> open_zarr fsmap True True w)))"

subsection \<open>A store that logs what is opened\<close>

text \<open>
  For concrete runs: the mapping of a path is the path; opening it yields the path as the
  dataset's name and appends it to the log of opened paths.
\<close>

definition path_mapper :: "string \<Rightarrow> error + string" where
  "path_mapper p = Inr p"

definition logging_open :: "string \<Rightarrow> bool \<Rightarrow> bool \<Rightarrow> string list \<Rightarrow> (error + string) \<times> string list" where
  "logging_open m consolidated use_cftime log = (Inr m, log @ [m])"

text \<open>
  The historical subset of the notebook's search: it asked for two ensemble members, so
  two records match.
\<close>

definition hist_cat :: esm_datastore where
  "hist_cat = \<lparr> df = \<lparr> index = range_index 2,
       columns = [(''experiment_id'', [''historical'', ''historical'']),
                  (''member_id'', [''r4i1p1f2'', ''r12i1p1f2'']),
                  (''zarr_path'', [''store/historical/r4i1p1f2/tas.zarr'',
                                   ''store/historical/r12i1p1f2/tas.zarr''])] \<rparr> \<rparr>"

text \<open>The same search asking for the first of the two members only: one record.\<close>

definition hist_cat_r4 :: esm_datastore where
  "hist_cat_r4 = \<lparr> df = \<lparr> index = range_index 1,
       columns = [(''experiment_id'', [''historical'']),
                  (''member_id'', [''r4i1p1f2'']),
                  (''zarr_path'', [''store/historical/r4i1p1f2/tas.zarr''])] \<rparr> \<rparr>"

section \<open>Chunk-wise reduction under a schedule\<close>

text \<open>
  The notebook's aggregations (\<open>mean\<close>, \<open>min\<close>, \<open>max\<close> over a dimension) are evaluated by
  the array engine chunk by chunk. The repository has no code of that engine, so this
  part follows the specification's component design of LazyGraph and TaskScheduler.
\<close>

text \<open>
  Modelled from the spec: the LazyGraph of one reduction, which the repository does not
  implement. The fixed chunk partitioning is the list of chunks, each an offset and a
  block of the input; \<open>node_fn\<close> is the pure node function that computes a chunk's partial
  reduction; \<open>combine\<close> merges two partials. Offsets are of any linearly ordered type and
  the partial type and \<open>combine\<close> are arbitrary: nothing says \<open>combine\<close> is associative or
  commutative, as floating-point addition is not.
\<close>

record ('o, 'c, 'p) LazyGraph =
  chunks :: "('o \<times> 'c) list"
  node_fn :: "'c \<Rightarrow> 'p"
  combine :: "'p \<Rightarrow> 'p \<Rightarrow> 'p"

text \<open>
  Modelled from the spec: one chunk task of the TaskScheduler, absent from the
  repository. Task \<open>i\<close> evaluates the node function on chunk \<open>i\<close> and, on completion,
  stores the partial with the chunk's offset behind the partials completed so far. The
  graph has no task for an index beyond its chunks.
\<close>

definition run_task ::
  "('o, 'c, 'p) LazyGraph \<Rightarrow> ('o \<times> 'p) list \<Rightarrow> nat \<Rightarrow> ('o \<times> 'p) list" where
  "run_task g completed i =
     (if i < length (chunks g)
      then completed @ [(fst (chunks g ! i), node_fn g (snd (chunks g ! i)))]
      else completed)"

text \<open>
  Modelled from the spec: a round of independent chunk tasks that the worker pool
  executes in parallel, absent from the repository. The list gives the order in which
  the tasks of the round complete.
\<close>

definition run_round ::
  "('o, 'c, 'p) LazyGraph \<Rightarrow> ('o \<times> 'p) list \<Rightarrow> nat list \<Rightarrow> ('o \<times> 'p) list" where
  "run_round g completed round = foldl (run_task g) completed round"

text \<open>
  Modelled from the spec: the run of a whole schedule, round after round, absent from
  the repository. The result is the partials in completion order.
\<close>

definition run_schedule :: "('o, 'c, 'p) LazyGraph \<Rightarrow> nat list list \<Rightarrow> ('o \<times> 'p) list" where
  "run_schedule g schedule = foldl (run_round g) [] schedule"




text \<open>
  For comparison only, not the specified engine: a combine phase that accumulates the
  partials in the order in which they completed.
\<close>

definition reduce_in_completion_order ::
  "('p \<Rightarrow> 'p \<Rightarrow> 'p) \<Rightarrow> ('o \<times> 'p) list \<Rightarrow> 'p option" where
  "reduce_in_completion_order f completed =
     (case completed of
        [] \<Rightarrow> None
      | (off, p) # rest \<Rightarrow> Some (foldl f p (map snd rest)))"

text \<open>
  A graph for concrete runs: three chunks of a one-dimensional array at the offsets 0, 2
  and 4, the chunk sum as partial, and a combine function that is neither associative
  nor commutative.
\<close>

definition example_graph :: "(nat, int list, int) LazyGraph" where
  "example_graph = \<lparr> chunks = [(0, [1, 2]), (2, [3, 4]), (4, [5])],
                      node_fn = sum_list,
                      combine = (\<lambda>a b. 10 * a + b) \<rparr>"

section \<open>Properties\<close>

subsection \<open>The catalog notebook\<close>

lemma range_index_Suc: "range_index (Suc n) = 0 # map (\<lambda>i. i + 1) (range_index n)"
proof -
  have "[0..<Suc n] = 0 # map Suc [0..<n]"
    by (simp add: upt_conv_Cons map_Suc_upt del: upt_Suc)
  then show ?thesis
    by (simp add: range_index_def comp_def)
qed

text \<open>In a table with the default index, the label \<open>0\<close> is the first row.\<close>

lemma first_row_by_label:
  assumes "index frame = range_index (length (p # ps))"
    and "map_of (columns frame) name = Some (p # ps)"
  shows "getitem_column frame name = Inr s \<Longrightarrow> getitem_label s 0 = Inr p"
  using assms by (auto simp: getitem_column_def getitem_label_def range_index_Suc)

text \<open>Without a row, or without the column, the subscripts raise and nothing is opened.\<close>

lemma cat_to_ds_empty:
  "index (df cat) = [] \<Longrightarrow> cat_to_ds get_mapper open_zarr cat w = (Inl KeyError, w)"
  by (simp add: cat_to_ds_def getitem_column_def getitem_label_def split: option.splits)

lemma cat_to_ds_no_column:
  "map_of (columns (df cat)) ''zarr_path'' = None \<Longrightarrow>
   cat_to_ds get_mapper open_zarr cat w = (Inl KeyError, w)"
  by (simp add: cat_to_ds_def getitem_column_def)

text \<open>
  Claim C9. For every catalog search result with one or more matching records (a table
  with the default index and a \<open>zarr_path\<close> column \<open>p # ps\<close>), \<open>cat_to_ds\<close> does exactly
  what opening the first record's path \<open>p\<close> does: one \<open>get_mapper\<close> call on \<open>p\<close>, and, when
  it succeeds, one \<open>open_zarr\<close> call on its mapping. The result and the state of the store
  depend on no other record: any other search result with the same first path, whatever
  its further records and columns, gives the same.
\<close>

theorem cat_to_ds_opens_first_record_only:
  assumes "index (df cat) = range_index (length (p # ps))"
    and "map_of (columns (df cat)) ''zarr_path'' = Some (p # ps)"
  shows "cat_to_ds get_mapper open_zarr cat w =
           (case get_mapper p of
              Inl e \<Rightarrow> (Inl e, w)
            | Inr fsmap \<Rightarrow> open_zarr fsmap True True w)
         \<and> (\<forall>cat' ps'.
               index (df cat') = range_index (length (p # ps')) \<and>
               map_of (columns (df cat')) ''zarr_path'' = Some (p # ps') \<longrightarrow>
               cat_to_ds get_mapper open_zarr cat' w = cat_to_ds get_mapper open_zarr cat w)"
proof -
  have first: "cat_to_ds get_mapper open_zarr c w =
                 (case get_mapper p of
                    Inl e \<Rightarrow> (Inl e, w)
                  | Inr fsmap \<Rightarrow> open_zarr fsmap True True w)"
    if "index (df c) = range_index (length (p # qs))"
      and "map_of (columns (df c)) ''zarr_path'' = Some (p # qs)" for c qs
    using that
    by (simp add: cat_to_ds_def getitem_column_def getitem_label_def range_index_Suc)
  show ?thesis
    using first [OF assms] first by simp
qed

theorem cat_to_ds_opens_first_record_only_witness:
  "index (df hist_cat) = range_index (length [''store/historical/r4i1p1f2/tas.zarr'',
                                               ''store/historical/r12i1p1f2/tas.zarr''])
   \<and> map_of (columns (df hist_cat)) ''zarr_path'' =
       Some [''store/historical/r4i1p1f2/tas.zarr'', ''store/historical/r12i1p1f2/tas.zarr'']
   \<and> index (df hist_cat_r4) = range_index (length [''store/historical/r4i1p1f2/tas.zarr''])
   \<and> map_of (columns (df hist_cat_r4)) ''zarr_path'' = Some [''store/historical/r4i1p1f2/tas.zarr'']
   \<and> cat_to_ds path_mapper logging_open hist_cat [] =
       (Inr ''store/historical/r4i1p1f2/tas.zarr'', [''store/historical/r4i1p1f2/tas.zarr''])
   \<and> cat_to_ds path_mapper logging_open hist_cat_r4 [] =
       cat_to_ds path_mapper logging_open hist_cat []"
proof -
  have i: "index (df hist_cat) = range_index (length [''store/historical/r4i1p1f2/tas.zarr'',
                                                      ''store/historical/r12i1p1f2/tas.zarr''])"
    by (simp add: hist_cat_def numeral_2_eq_2)
  have c: "map_of (columns (df hist_cat)) ''zarr_path'' =
       Some [''store/historical/r4i1p1f2/tas.zarr'', ''store/historical/r12i1p1f2/tas.zarr'']"
    by (simp add: hist_cat_def)
  have i': "index (df hist_cat_r4) = range_index (length [''store/historical/r4i1p1f2/tas.zarr''])"
    by (simp add: hist_cat_r4_def)
  have c': "map_of (columns (df hist_cat_r4)) ''zarr_path'' =
       Some [''store/historical/r4i1p1f2/tas.zarr'']"
    by (simp add: hist_cat_r4_def)
  note first = cat_to_ds_opens_first_record_only [OF i c, of path_mapper logging_open "[]"]
  from first have opened: "cat_to_ds path_mapper logging_open hist_cat [] =
       (Inr ''store/historical/r4i1p1f2/tas.zarr'', [''store/historical/r4i1p1f2/tas.zarr''])"
    by (simp add: path_mapper_def logging_open_def)
  from first i' c' have same: "cat_to_ds path_mapper logging_open hist_cat_r4 [] =
       cat_to_ds path_mapper logging_open hist_cat []"
    by blast
  from i c i' c' opened same show ?thesis by blast
qed


subsection \<open>Chunk-wise reduction\<close>






text \<open>
  An engine that accumulated in completion order would not be reproducible: on the
  example graph two schedules give two results.
\<close>

lemma completion_order_not_reproducible:
  "reduce_in_completion_order (combine example_graph) (run_schedule example_graph [[2, 0], [1]])
   \<noteq> reduce_in_completion_order (combine example_graph) (run_schedule example_graph [[0], [1], [2]])"
  by (simp add: reduce_in_completion_order_def run_schedule_def run_round_def run_task_def
      example_graph_def)



end
